theory Spec2Isabelle
  imports Main
begin

section \<open>The connection registry of package \<open>connection\<close>\<close>

text \<open>
  The package keeps one \<open>MySqlConnection\<close> value per process: two Go maps keyed by the
  connection name, one holding the \<open>*gorm.DB\<close> pointers and one holding the \<open>DBConfig\<close>
  each pointer was opened with. Every method takes the mutex for its map accesses; the
  development below is about one caller at a time, so the mutex has no counterpart and a
  method is a function from the registry to its results and the registry afterwards.
\<close>

subsection \<open>Data\<close>

text \<open>
  \<open>DBConfig\<close>, field by field. Go's \<open>int\<close> and \<open>time.Duration\<close> (an \<open>int64\<close> of
  nanoseconds) are only stored, passed on and compared here, never computed with, so
  they are integers.
\<close>

record DBConfig =
  DataSourceName :: string
  MaxOpen :: int
  MaxIdle :: int
  Lifetime :: int
  IdleTime :: int

text \<open>The composite literal \<open>DBConfig{}\<close>: every field at its zero value.\<close>

definition DBConfig_zero :: DBConfig where
  "DBConfig_zero =
     \<lparr>DataSourceName = [], MaxOpen = 0, MaxIdle = 0, Lifetime = 0, IdleTime = 0\<rparr>"

text \<open>
  A \<open>*gorm.DB\<close> and a \<open>*sql.DB\<close> are pointers into the client library; the registry
  only stores them, hands them out and passes them back to the library. They are
  identified by a number each. A \<open>nil\<close> pointer is \<open>None\<close> of the option type.
\<close>

type_synonym gormDB = nat
type_synonym sqlDB = nat

text \<open>An error raised inside the client library is its message.\<close>

type_synonym lib_error = string

text \<open>
  The errors the package builds with \<open>fmt.Errorf\<close>, one constructor per format string,
  each carrying the name and the wrapped cause where the format has one.
\<close>

datatype error =
    ErrInitialize string lib_error
      \<comment> \<open>failed to initialize database connection NAME: CAUSE\<close>
  | ErrRetrieveHandle string lib_error
      \<comment> \<open>failed to retrieve database handle for NAME: CAUSE\<close>
  | ErrPing string lib_error
      \<comment> \<open>failed to ping database NAME: CAUSE\<close>
  | ErrNotExist string
      \<comment> \<open>database connection NAME does not exist\<close>
  | ErrNoConfig string
      \<comment> \<open>no configuration found to reconnect database NAME\<close>
  | ErrRemove string error
      \<comment> \<open>failed to remove connection NAME: CAUSE\<close>
  | ErrReconnect string error
      \<comment> \<open>failed to reconnect to database NAME: CAUSE\<close>
  | ErrHandleOnClose string lib_error
      \<comment> \<open>error retrieving database handle for NAME: CAUSE\<close>
  | ErrClose string lib_error
      \<comment> \<open>error closing database connection NAME: CAUSE\<close>

text \<open>The struct \<open>MySqlConnection\<close> without its mutex.\<close>

record MySqlConnection =
  connections :: "string \<rightharpoonup> gormDB"
  configs :: "string \<rightharpoonup> DBConfig"

subsection \<open>The client library and the runtime\<close>

text \<open>
  What the registry calls but does not implement: \<open>gorm.Open\<close> on a data source name,
  \<open>db.DB()\<close>, \<open>sqlDB.Ping()\<close> and \<open>sqlDB.Close()\<close>. Their answers depend on the
  database server and the network, so they are a parameter of every method: a value of
  type \<open>library\<close> gives the answers the library returns during one method call, and
  different calls may be given different answers. Within one method call the only
  question asked twice is \<open>db.DB()\<close> on the stored pointer, by \<open>GetDB\<close> in its health
  check and again in \<open>CloseConnection\<close>; it is a getter on the pointer and is answered
  the same way both times. \<open>range_order\<close> is the order in which the runtime's \<open>range\<close>
  statement visits the keys of the \<open>connections\<close> map, which Go leaves unspecified.
\<close>

record library =
  gorm_Open :: "string \<Rightarrow> lib_error + gormDB"
  db_DB :: "gormDB \<Rightarrow> lib_error + sqlDB"
  sqlDB_Ping :: "sqlDB \<Rightarrow> lib_error option"
  sqlDB_Close :: "sqlDB \<Rightarrow> lib_error option"
  range_order :: "string list"

text \<open>
  The calls a method makes into the library, in the order it makes them. The four pool
  setters return nothing. Messages written with \<open>log.Printf\<close> and \<open>fmt.Printf\<close> are
  not recorded.
\<close>

datatype call =
    Call_Open string
  | Call_DB gormDB
  | Call_SetMaxOpenConns sqlDB int
  | Call_SetMaxIdleConns sqlDB int
  | Call_SetConnMaxLifetime sqlDB int
  | Call_SetConnMaxIdleTime sqlDB int
  | Call_Ping sqlDB
  | Call_Close sqlDB

subsection \<open>The methods\<close>

text \<open>\<open>GetMySqlConnection\<close>: the registry the \<open>sync.Once\<close> body builds, both maps empty.\<close>

definition GetMySqlConnection :: MySqlConnection where
  "GetMySqlConnection = \<lparr>connections = Map.empty, configs = Map.empty\<rparr>"

text \<open>
  \<open>InitDataSourceConnection\<close> returns its error (\<open>None\<close> for \<open>nil\<close>), the registry
  afterwards and the library calls made.
\<close>

definition InitDataSourceConnection ::
  "library \<Rightarrow> string \<Rightarrow> DBConfig \<Rightarrow> MySqlConnection
     \<Rightarrow> error option \<times> MySqlConnection \<times> call list" where
  "InitDataSourceConnection lib name config f =
     (case connections f name of
        Some _ \<Rightarrow> (None, f, [])
      | None \<Rightarrow>
          (case gorm_Open lib (DataSourceName config) of
             Inl err \<Rightarrow>
               (Some (ErrInitialize name err), f, [Call_Open (DataSourceName config)])
           | Inr db \<Rightarrow>
               (case db_DB lib db of
                  Inl err \<Rightarrow>
                    (Some (ErrRetrieveHandle name err), f,
                     [Call_Open (DataSourceName config), Call_DB db])
                | Inr sqlDB \<Rightarrow>
                    (let setup =
                       [Call_Open (DataSourceName config), Call_DB db,
                        Call_SetMaxOpenConns sqlDB (MaxOpen config),
                        Call_SetMaxIdleConns sqlDB (MaxIdle config),
                        Call_SetConnMaxLifetime sqlDB (Lifetime config),
                        Call_SetConnMaxIdleTime sqlDB (IdleTime config),
                        Call_Ping sqlDB]
                     in case sqlDB_Ping lib sqlDB of
                          Some err \<Rightarrow> (Some (ErrPing name err), f, setup)
                        | None \<Rightarrow>
                            (None,
                             f\<lparr>connections := (connections f)(name \<mapsto> db),
                               configs := (configs f)(name \<mapsto> config)\<rparr>,
                             setup)))))"

text \<open>\<open>CloseConnection\<close>: the entry is deleted from both maps only after a clean close.\<close>

definition CloseConnection ::
  "library \<Rightarrow> string \<Rightarrow> MySqlConnection \<Rightarrow> error option \<times> MySqlConnection \<times> call list" where
  "CloseConnection lib name f =
     (case connections f name of
        None \<Rightarrow> (Some (ErrNotExist name), f, [])
      | Some db \<Rightarrow>
          (case db_DB lib db of
             Inl err \<Rightarrow> (Some (ErrHandleOnClose name err), f, [Call_DB db])
           | Inr sqlDB \<Rightarrow>
               (case sqlDB_Close lib sqlDB of
                  Some err \<Rightarrow> (Some (ErrClose name err), f, [Call_DB db, Call_Close sqlDB])
                | None \<Rightarrow>
                    (None,
                     f\<lparr>connections := (connections f)(name := None),
                       configs := (configs f)(name := None)\<rparr>,
                     [Call_DB db, Call_Close sqlDB]))))"

text \<open>
  \<open>reconnect\<close> returns the pointer (\<open>None\<close> for \<open>nil\<close>), the error, the registry
  afterwards and the library calls made. Its last statement reads the map again.
\<close>

definition reconnect ::
  "library \<Rightarrow> string \<Rightarrow> DBConfig \<Rightarrow> MySqlConnection
     \<Rightarrow> gormDB option \<times> error option \<times> MySqlConnection \<times> call list" where
  "reconnect lib name config f =
     (case CloseConnection lib name f of
        (Some err, f1, cs1) \<Rightarrow> (None, Some (ErrRemove name err), f1, cs1)
      | (None, f1, cs1) \<Rightarrow>
          (case InitDataSourceConnection lib name config f1 of
             (Some err, f2, cs2) \<Rightarrow> (None, Some (ErrReconnect name err), f2, cs1 @ cs2)
           | (None, f2, cs2) \<Rightarrow> (connections f2 name, None, f2, cs1 @ cs2)))"

text \<open>
  \<open>GetDB\<close>. The health check is \<open>err != nil || sqlDB.Ping() != nil\<close>: the ping is made
  only when \<open>db.DB()\<close> gave a handle.
\<close>

definition GetDB ::
  "library \<Rightarrow> string \<Rightarrow> MySqlConnection
     \<Rightarrow> gormDB option \<times> error option \<times> MySqlConnection \<times> call list" where
  "GetDB lib name f =
     (case connections f name of
        None \<Rightarrow> (None, Some (ErrNotExist name), f, [])
      | Some db \<Rightarrow>
          (let (unhealthy, probe) =
             (case db_DB lib db of
                Inl err \<Rightarrow> (True, [Call_DB db])
              | Inr sqlDB \<Rightarrow> (sqlDB_Ping lib sqlDB \<noteq> None, [Call_DB db, Call_Ping sqlDB]))
           in if unhealthy then
                (case configs f name of
                   None \<Rightarrow> (None, Some (ErrNoConfig name), f, probe)
                 | Some config \<Rightarrow>
                     (case reconnect lib name config f of
                        (db', err, f', cs) \<Rightarrow> (db', err, f', probe @ cs)))
              else (Some db, None, f, probe)))"

text \<open>
  \<open>CloseAllConnections\<close>: the loop closes what it can and only prints on a failure;
  afterwards both maps are replaced by fresh ones. \<open>close_each\<close> is the loop, over the
  keys in the order the runtime visits them; a name that is not a key is not visited.
\<close>

fun close_each :: "library \<Rightarrow> (string \<rightharpoonup> gormDB) \<Rightarrow> string list \<Rightarrow> call list" where
  "close_each lib conns [] = []"
| "close_each lib conns (name # names) =
     (case conns name of
        None \<Rightarrow> close_each lib conns names
      | Some db \<Rightarrow>
          (case db_DB lib db of
             Inl err \<Rightarrow> Call_DB db # close_each lib conns names
           | Inr sqlDB \<Rightarrow> Call_DB db # Call_Close sqlDB # close_each lib conns names))"

definition CloseAllConnections ::
  "library \<Rightarrow> MySqlConnection \<Rightarrow> MySqlConnection \<times> call list" where
  "CloseAllConnections lib f =
     (f\<lparr>connections := Map.empty, configs := Map.empty\<rparr>,
      close_each lib (connections f) (range_order lib))"

text \<open>
  \<open>PrintAllExistingDb\<close> prints \<open>connectionNames\<close>; the function is that slice: the
  visited names whose \<open>db.DB()\<close> gives a handle.
\<close>

fun existing_names :: "library \<Rightarrow> (string \<rightharpoonup> gormDB) \<Rightarrow> string list \<Rightarrow> string list" where
  "existing_names lib conns [] = []"
| "existing_names lib conns (name # names) =
     (case conns name of
        None \<Rightarrow> existing_names lib conns names
      | Some db \<Rightarrow>
          (case db_DB lib db of
             Inl err \<Rightarrow> existing_names lib conns names
           | Inr sqlDB \<Rightarrow> name # existing_names lib conns names))"

definition PrintAllExistingDb :: "library \<Rightarrow> MySqlConnection \<Rightarrow> string list" where
  "PrintAllExistingDb lib f = existing_names lib (connections f) (range_order lib)"

text \<open>
  \<open>GetDbConfig\<close>: indexing the map with a missing key gives the zero value, and a
  stored value equal to \<open>DBConfig{}\<close> takes the same branch.
\<close>

definition GetDbConfig :: "string \<Rightarrow> MySqlConnection \<Rightarrow> DBConfig" where
  "GetDbConfig conName f =
     (let config = (case configs f conName of None \<Rightarrow> DBConfig_zero | Some c \<Rightarrow> c)
      in if config = DBConfig_zero then DBConfig_zero else config)"

subsection \<open>Sequences of calls\<close>

text \<open>
  A caller's use of the registry is a sequence of method calls, each made while the
  library answers in some way. \<open>step\<close> is the registry after one call and \<open>run\<close> the
  registry after a sequence. \<open>reconnect\<close> is unexported and reached through \<open>GetDB\<close>
  only; it has a constructor of its own so that statements about every method can
  include it.
\<close>

datatype op =
    Op_Init string DBConfig
  | Op_GetDB string
  | Op_reconnect string DBConfig
  | Op_Close string
  | Op_CloseAll

fun step :: "library \<Rightarrow> op \<Rightarrow> MySqlConnection \<Rightarrow> MySqlConnection" where
  "step lib (Op_Init name config) f = fst (snd (InitDataSourceConnection lib name config f))"
| "step lib (Op_GetDB name) f = fst (snd (snd (GetDB lib name f)))"
| "step lib (Op_reconnect name config) f = fst (snd (snd (reconnect lib name config f)))"
| "step lib (Op_Close name) f = fst (snd (CloseConnection lib name f))"
| "step lib Op_CloseAll f = fst (CloseAllConnections lib f)"

fun run :: "(library \<times> op) list \<Rightarrow> MySqlConnection \<Rightarrow> MySqlConnection" where
  "run [] f = f"
| "run ((lib, c) # rest) f = run rest (step lib c f)"

text \<open>The calls that can store a configuration under a name that has none.\<close>

fun initializes :: "string \<Rightarrow> op \<Rightarrow> bool" where
  "initializes name (Op_Init n config) = (n = name)"
| "initializes name (Op_reconnect n config) = (n = name)"
| "initializes name _ = False"

text \<open>The invariant of the data model: a name with a connection has a configuration.\<close>

definition config_for_each_connection :: "MySqlConnection \<Rightarrow> bool" where
  "config_for_each_connection f \<longleftrightarrow> dom (connections f) \<subseteq> dom (configs f)"

subsection \<open>Concrete configurations, library behaviours and registries\<close>

text \<open>The configuration of the package's usage example and the one of its tests.\<close>

definition cfg_primary :: DBConfig where
  "cfg_primary =
     \<lparr>DataSourceName = ''user:password@tcp(localhost:3306)/dbname'',
      MaxOpen = 10, MaxIdle = 5, Lifetime = 3600000000000, IdleTime = 1800000000000\<rparr>"

definition cfg_test :: DBConfig where
  "cfg_test =
     \<lparr>DataSourceName = ''user:password@tcp(localhost:3306)/dbname'',
      MaxOpen = 5, MaxIdle = 2, Lifetime = 60000000000, IdleTime = 1800000000000\<rparr>"

text \<open>
  In all of the behaviours below the \<open>*sql.DB\<close> of the \<open>*gorm.DB\<close> numbered \<open>n\<close> is
  numbered \<open>100 + n\<close>. \<open>lib_up\<close>: the server answers and the first pointer is handed out.
\<close>

definition lib_up :: library where
  "lib_up =
     \<lparr>gorm_Open = (\<lambda>dsn. Inr 1), db_DB = (\<lambda>db. Inr (100 + db)),
      sqlDB_Ping = (\<lambda>s. None), sqlDB_Close = (\<lambda>s. None),
      range_order = [''primary_db'']\<rparr>"

text \<open>
  \<open>lib_stale\<close>: the pool of pointer 1 has been closed behind the registry's back, as in
  \<open>TestReconnect\<close>; closing it again is accepted, and a new open hands out pointer 2.
\<close>

definition lib_stale :: library where
  "lib_stale =
     \<lparr>gorm_Open = (\<lambda>dsn. Inr 2), db_DB = (\<lambda>db. Inr (100 + db)),
      sqlDB_Ping = (\<lambda>s. if s = 101 then Some ''sql: database is closed'' else None),
      sqlDB_Close = (\<lambda>s. None),
      range_order = [''primary_db'']\<rparr>"

text \<open>\<open>lib_down\<close>: the server is unreachable, so pings and opens fail; closing works.\<close>

definition lib_down :: library where
  "lib_down =
     \<lparr>gorm_Open = (\<lambda>dsn. Inl ''dial tcp 127.0.0.1:3306: connect: connection refused''),
      db_DB = (\<lambda>db. Inr (100 + db)),
      sqlDB_Ping = (\<lambda>s. Some ''driver: bad connection''),
      sqlDB_Close = (\<lambda>s. None),
      range_order = [''primary_db'']\<rparr>"

text \<open>\<open>lib_close_fails\<close>: pings fail and so does closing a pool.\<close>

definition lib_close_fails :: library where
  "lib_close_fails =
     \<lparr>gorm_Open = (\<lambda>dsn. Inr 2), db_DB = (\<lambda>db. Inr (100 + db)),
      sqlDB_Ping = (\<lambda>s. Some ''driver: bad connection''),
      sqlDB_Close = (\<lambda>s. Some ''close tcp 127.0.0.1:3306: i/o timeout''),
      range_order = [''primary_db'']\<rparr>"

text \<open>\<open>lib_no_handle\<close>: an open succeeds but \<open>db.DB()\<close> gives no pool.\<close>

definition lib_no_handle :: library where
  "lib_no_handle =
     \<lparr>gorm_Open = (\<lambda>dsn. Inr 1), db_DB = (\<lambda>db. Inl ''invalid db''),
      sqlDB_Ping = (\<lambda>s. None), sqlDB_Close = (\<lambda>s. None),
      range_order = [''primary_db'']\<rparr>"

text \<open>\<open>lib_no_ping\<close>: an open succeeds and gives a pool, but the server does not answer.\<close>

definition lib_no_ping :: library where
  "lib_no_ping =
     \<lparr>gorm_Open = (\<lambda>dsn. Inr 1), db_DB = (\<lambda>db. Inr (100 + db)),
      sqlDB_Ping = (\<lambda>s. Some ''driver: bad connection''), sqlDB_Close = (\<lambda>s. None),
      range_order = [''primary_db'']\<rparr>"

text \<open>
  \<open>reg_primary\<close> is the registry after \<open>primary_db\<close> has been initialized with
  \<open>cfg_primary\<close>; \<open>reg_no_config\<close> has the same connection and no configuration, a
  value that only a registry built by hand can have.
\<close>

definition reg_primary :: MySqlConnection where
  "reg_primary =
     \<lparr>connections = [''primary_db'' \<mapsto> 1], configs = [''primary_db'' \<mapsto> cfg_primary]\<rparr>"

definition reg_no_config :: MySqlConnection where
  "reg_no_config = \<lparr>connections = [''primary_db'' \<mapsto> 1], configs = Map.empty\<rparr>"

section \<open>Properties\<close>

subsection \<open>The registry after each method\<close>

text \<open>
  Each method either returns the registry it was given or changes both maps at the one
  name it was called with. The facts below say so method by method; the invariant and the
  statements about other names follow from them.
\<close>

lemma Init_registered:
  "connections f name = Some db \<Longrightarrow> InitDataSourceConnection lib name config f = (None, f, [])"
  by (simp add: InitDataSourceConnection_def)

lemma Init_registry:
  "fst (snd (InitDataSourceConnection lib name config f)) = f \<or>
   (\<exists>db. connections f name = None \<and> fst (InitDataSourceConnection lib name config f) = None \<and>
      fst (snd (InitDataSourceConnection lib name config f)) =
        f\<lparr>connections := (connections f)(name \<mapsto> db), configs := (configs f)(name \<mapsto> config)\<rparr>)"
  by (auto simp: InitDataSourceConnection_def Let_def split: option.splits sum.splits)

lemma Init_error_registry:
  "fst (InitDataSourceConnection lib name config f) \<noteq> None \<Longrightarrow>
   fst (snd (InitDataSourceConnection lib name config f)) = f"
  by (simp add: InitDataSourceConnection_def Let_def split: option.splits sum.splits)

lemma Close_registry:
  "(fst (CloseConnection lib name f) \<noteq> None \<and> fst (snd (CloseConnection lib name f)) = f) \<or>
   (fst (CloseConnection lib name f) = None \<and>
    fst (snd (CloseConnection lib name f)) =
      f\<lparr>connections := (connections f)(name := None), configs := (configs f)(name := None)\<rparr>)"
  by (simp add: CloseConnection_def split: option.splits sum.splits)

lemma reconnect_registry:
  "fst (snd (snd (reconnect lib name config f))) =
     (if fst (CloseConnection lib name f) \<noteq> None then fst (snd (CloseConnection lib name f))
      else fst (snd (InitDataSourceConnection lib name config (fst (snd (CloseConnection lib name f))))))"
  by (simp add: reconnect_def split: prod.splits option.splits)

lemma GetDB_registry:
  "fst (snd (snd (GetDB lib name f))) = f \<or>
   (\<exists>config. configs f name = Some config \<and>
      fst (snd (snd (GetDB lib name f))) = fst (snd (snd (reconnect lib name config f))))"
  by (simp add: GetDB_def Let_def split: prod.splits option.splits sum.splits)

lemma inv_Init:
  "config_for_each_connection f \<Longrightarrow>
   config_for_each_connection (fst (snd (InitDataSourceConnection lib name config f)))"
  using Init_registry [of lib name config f]
  by (auto simp: config_for_each_connection_def subset_iff dom_def)

lemma inv_Close:
  "config_for_each_connection f \<Longrightarrow>
   config_for_each_connection (fst (snd (CloseConnection lib name f)))"
  using Close_registry [of lib name f]
  by (auto simp: config_for_each_connection_def subset_iff dom_def)

lemma inv_reconnect:
  "config_for_each_connection f \<Longrightarrow>
   config_for_each_connection (fst (snd (snd (reconnect lib name config f))))"
  by (simp add: reconnect_registry inv_Init inv_Close)

lemma inv_GetDB:
  "config_for_each_connection f \<Longrightarrow>
   config_for_each_connection (fst (snd (snd (GetDB lib name f))))"
  using GetDB_registry [of lib name f] by (auto simp: inv_reconnect)

lemma inv_CloseAll:
  "config_for_each_connection (fst (CloseAllConnections lib f))"
  by (simp add: CloseAllConnections_def config_for_each_connection_def)

lemma inv_step:
  "config_for_each_connection f \<Longrightarrow> config_for_each_connection (step lib c f)"
  by (cases c) (simp_all add: inv_Init inv_GetDB inv_reconnect inv_Close inv_CloseAll)

lemma inv_run:
  "config_for_each_connection f \<Longrightarrow> config_for_each_connection (run calls f)"
  by (induction calls arbitrary: f) (auto simp: inv_step)

lemma existing_names_empty: "existing_names lib Map.empty names = []"
  by (induction names) simp_all

lemma GetDB_unhealthy:
  assumes "connections f name = Some db" and "configs f name = Some config"
    and "db_DB lib db = Inr s" and "sqlDB_Ping lib s = Some e"
  shows "GetDB lib name f =
           (case reconnect lib name config f of
              (db', err, f', cs) \<Rightarrow> (db', err, f', [Call_DB db, Call_Ping s] @ cs))"
  using assms by (simp add: GetDB_def)

text \<open>
  When the pool of the stored pointer cannot be obtained, the close step of the
  reconnection cannot obtain it either, and the entry stays as it is.
\<close>

lemma GetDB_handle_unobtainable:
  assumes "connections f name = Some db" and "configs f name = Some config"
    and "db_DB lib db = Inl e"
  shows "GetDB lib name f =
           (None, Some (ErrRemove name (ErrHandleOnClose name e)), f, [Call_DB db, Call_DB db])"
  using assms by (simp add: GetDB_def reconnect_def CloseConnection_def)

text \<open>A method called with one name leaves the configurations of the other names alone.\<close>

lemma Init_configs_other:
  "n \<noteq> name \<Longrightarrow> configs (fst (snd (InitDataSourceConnection lib n config f))) name = configs f name"
  using Init_registry [of lib n config f] by auto

lemma Close_configs_None:
  "configs f name = None \<Longrightarrow> configs (fst (snd (CloseConnection lib n f))) name = None"
  using Close_registry [of lib n f] by auto

lemma reconnect_configs_other:
  "n \<noteq> name \<Longrightarrow> configs f name = None \<Longrightarrow>
   configs (fst (snd (snd (reconnect lib n config f)))) name = None"
  by (simp add: reconnect_registry Init_configs_other Close_configs_None)

lemma GetDB_configs_None:
  "configs f name = None \<Longrightarrow> configs (fst (snd (snd (GetDB lib n f)))) name = None"
  using GetDB_registry [of lib n f] by (cases "n = name") (auto simp: reconnect_configs_other)

lemma step_configs_None:
  "configs f name = None \<Longrightarrow> \<not> initializes name c \<Longrightarrow> configs (step lib c f) name = None"
  by (cases c)
     (simp_all add: Init_configs_other GetDB_configs_None reconnect_configs_other
        Close_configs_None CloseAllConnections_def)

lemma run_configs_None:
  "configs f name = None \<Longrightarrow> \<forall>s\<in>set calls. \<not> initializes name (snd s) \<Longrightarrow>
   configs (run calls f) name = None"
  by (induction calls arbitrary: f) (auto simp: step_configs_None)

subsection \<open>The claims\<close>

text \<open>
  Claim C1, as amended. A name is registered with pointer \<open>db\<close> and configuration
  \<open>config\<close>, the pool of \<open>db\<close> is obtained and its ping fails. Then \<open>GetDB\<close> does one
  of three things, and which one is decided by the library's answers alone.

  If closing that pool succeeds, and opening the data source of \<open>config\<close>, obtaining the
  new pool and pinging it succeed, \<open>GetDB\<close> returns the new pointer and no error. On the
  way it closes the old pool, opens the recorded data source and applies the recorded
  pool settings, as the list of library calls shows. Afterwards the name maps to the new
  pointer, which differs from the old one; the set of names and the configurations are
  as before.

  If closing the old pool fails, \<open>GetDB\<close> returns \<open>nil\<close> and the close error wrapped as
  a removal failure; the registry is unchanged and nothing is opened.

  If closing the old pool succeeds and the re-initialization returns an error,
  \<open>GetDB\<close> returns \<open>nil\<close> and that error wrapped as a reconnection failure; the name
  is then in neither map.
\<close>

theorem GetDB_self_heals:
  assumes "connections f name = Some db" and "configs f name = Some config"
    and "db_DB lib db = Inr s" and "sqlDB_Ping lib s = Some e"
  shows "(sqlDB_Close lib s = None \<and> gorm_Open lib (DataSourceName config) = Inr db' \<and>
            db_DB lib db' = Inr s' \<and> sqlDB_Ping lib s' = None \<longrightarrow>
          GetDB lib name f =
            (Some db', None, f\<lparr>connections := (connections f)(name \<mapsto> db')\<rparr>,
             [Call_DB db, Call_Ping s, Call_DB db, Call_Close s,
              Call_Open (DataSourceName config), Call_DB db',
              Call_SetMaxOpenConns s' (MaxOpen config),
              Call_SetMaxIdleConns s' (MaxIdle config),
              Call_SetConnMaxLifetime s' (Lifetime config),
              Call_SetConnMaxIdleTime s' (IdleTime config),
              Call_Ping s']) \<and>
          db' \<noteq> db \<and>
          dom (connections (f\<lparr>connections := (connections f)(name \<mapsto> db')\<rparr>)) =
            dom (connections f)) \<and>
         (sqlDB_Close lib s = Some ce \<longrightarrow>
          GetDB lib name f =
            (None, Some (ErrRemove name (ErrClose name ce)), f,
             [Call_DB db, Call_Ping s, Call_DB db, Call_Close s])) \<and>
         (sqlDB_Close lib s = None \<and>
          InitDataSourceConnection lib name config
            (f\<lparr>connections := (connections f)(name := None),
               configs := (configs f)(name := None)\<rparr>) = (Some cause, f2, cs) \<longrightarrow>
          GetDB lib name f =
            (None, Some (ErrReconnect name cause),
             f\<lparr>connections := (connections f)(name := None),
               configs := (configs f)(name := None)\<rparr>,
             [Call_DB db, Call_Ping s, Call_DB db, Call_Close s] @ cs))"
proof -
  let ?f1 = "f\<lparr>connections := (connections f)(name := None),
               configs := (configs f)(name := None)\<rparr>"
  note unhealthy = GetDB_unhealthy [OF assms]
  have healed: "GetDB lib name f =
            (Some db', None, f\<lparr>connections := (connections f)(name \<mapsto> db')\<rparr>,
             [Call_DB db, Call_Ping s, Call_DB db, Call_Close s,
              Call_Open (DataSourceName config), Call_DB db',
              Call_SetMaxOpenConns s' (MaxOpen config),
              Call_SetMaxIdleConns s' (MaxIdle config),
              Call_SetConnMaxLifetime s' (Lifetime config),
              Call_SetConnMaxIdleTime s' (IdleTime config),
              Call_Ping s']) \<and>
          db' \<noteq> db \<and>
          dom (connections (f\<lparr>connections := (connections f)(name \<mapsto> db')\<rparr>)) =
            dom (connections f)"
    if ok: "sqlDB_Close lib s = None" "gorm_Open lib (DataSourceName config) = Inr db'"
      "db_DB lib db' = Inr s'" "sqlDB_Ping lib s' = None"
  proof -
    have close: "CloseConnection lib name f = (None, ?f1, [Call_DB db, Call_Close s])"
      using assms ok by (simp add: CloseConnection_def)
    have cfg: "(configs f)(name \<mapsto> config) = configs f"
      using assms(2) by (simp add: map_upd_triv)
    have init: "InitDataSourceConnection lib name config ?f1 =
        (None, f\<lparr>connections := (connections f)(name \<mapsto> db')\<rparr>,
         [Call_Open (DataSourceName config), Call_DB db',
          Call_SetMaxOpenConns s' (MaxOpen config),
          Call_SetMaxIdleConns s' (MaxIdle config),
          Call_SetConnMaxLifetime s' (Lifetime config),
          Call_SetConnMaxIdleTime s' (IdleTime config),
          Call_Ping s'])"
      using ok by (simp add: InitDataSourceConnection_def cfg)
    have get: "GetDB lib name f =
            (Some db', None, f\<lparr>connections := (connections f)(name \<mapsto> db')\<rparr>,
             [Call_DB db, Call_Ping s, Call_DB db, Call_Close s,
              Call_Open (DataSourceName config), Call_DB db',
              Call_SetMaxOpenConns s' (MaxOpen config),
              Call_SetMaxIdleConns s' (MaxIdle config),
              Call_SetConnMaxLifetime s' (Lifetime config),
              Call_SetConnMaxIdleTime s' (IdleTime config),
              Call_Ping s'])"
      by (simp add: unhealthy reconnect_def close init)
    have "s' \<noteq> s" using assms(4) ok(4) by auto
    then have neq: "db' \<noteq> db" using assms(3) ok(3) by auto
    have "dom (connections (f\<lparr>connections := (connections f)(name \<mapsto> db')\<rparr>)) =
             dom (connections f)"
      using assms(1) by auto
    with get neq show ?thesis by simp
  qed
  have close_failed: "GetDB lib name f =
            (None, Some (ErrRemove name (ErrClose name ce)), f,
             [Call_DB db, Call_Ping s, Call_DB db, Call_Close s])"
    if "sqlDB_Close lib s = Some ce"
  proof -
    have "CloseConnection lib name f =
        (Some (ErrClose name ce), f, [Call_DB db, Call_Close s])"
      using assms that by (simp add: CloseConnection_def)
    then show ?thesis by (simp add: unhealthy reconnect_def)
  qed
  have init_failed: "GetDB lib name f =
            (None, Some (ErrReconnect name cause), ?f1,
             [Call_DB db, Call_Ping s, Call_DB db, Call_Close s] @ cs)"
    if "sqlDB_Close lib s = None"
      and bad: "InitDataSourceConnection lib name config ?f1 = (Some cause, f2, cs)"
  proof -
    have close: "CloseConnection lib name f = (None, ?f1, [Call_DB db, Call_Close s])"
      using assms that(1) by (simp add: CloseConnection_def)
    have "fst (snd (InitDataSourceConnection lib name config ?f1)) = ?f1"
      by (rule Init_error_registry) (simp add: bad)
    with bad have "f2 = ?f1" by simp
    with bad close show ?thesis by (simp add: unhealthy reconnect_def)
  qed
  from healed close_failed init_failed show ?thesis by blast
qed

text \<open>
  One library behaviour for each of the three cases, on the registry \<open>reg_primary\<close>:
  under \<open>lib_stale\<close> the call returns pointer 2 in place of pointer 1, under
  \<open>lib_close_fails\<close> it returns the removal failure and keeps the entry, and under
  \<open>lib_down\<close> it returns the reconnection failure and the name is gone.
\<close>

theorem GetDB_self_heals_witness:
  "connections reg_primary ''primary_db'' = Some 1 \<and>
   configs reg_primary ''primary_db'' = Some cfg_primary \<and>
   db_DB lib_stale 1 = Inr 101 \<and>
   sqlDB_Ping lib_stale 101 = Some ''sql: database is closed'' \<and>
   sqlDB_Close lib_stale 101 = None \<and>
   gorm_Open lib_stale (DataSourceName cfg_primary) = Inr 2 \<and>
   db_DB lib_stale 2 = Inr 102 \<and>
   sqlDB_Ping lib_stale 102 = None \<and>
   GetDB lib_stale ''primary_db'' reg_primary =
     (Some 2, None,
      \<lparr>connections = [''primary_db'' \<mapsto> 2], configs = [''primary_db'' \<mapsto> cfg_primary]\<rparr>,
      [Call_DB 1, Call_Ping 101, Call_DB 1, Call_Close 101,
       Call_Open ''user:password@tcp(localhost:3306)/dbname'', Call_DB 2,
       Call_SetMaxOpenConns 102 10, Call_SetMaxIdleConns 102 5,
       Call_SetConnMaxLifetime 102 3600000000000,
       Call_SetConnMaxIdleTime 102 1800000000000, Call_Ping 102]) \<and>
   db_DB lib_close_fails 1 = Inr 101 \<and>
   sqlDB_Ping lib_close_fails 101 = Some ''driver: bad connection'' \<and>
   sqlDB_Close lib_close_fails 101 = Some ''close tcp 127.0.0.1:3306: i/o timeout'' \<and>
   GetDB lib_close_fails ''primary_db'' reg_primary =
     (None,
      Some (ErrRemove ''primary_db''
        (ErrClose ''primary_db'' ''close tcp 127.0.0.1:3306: i/o timeout'')),
      reg_primary, [Call_DB 1, Call_Ping 101, Call_DB 1, Call_Close 101]) \<and>
   db_DB lib_down 1 = Inr 101 \<and>
   sqlDB_Ping lib_down 101 = Some ''driver: bad connection'' \<and>
   sqlDB_Close lib_down 101 = None \<and>
   InitDataSourceConnection lib_down ''primary_db'' cfg_primary GetMySqlConnection =
     (Some (ErrInitialize ''primary_db''
        ''dial tcp 127.0.0.1:3306: connect: connection refused''),
      GetMySqlConnection, [Call_Open ''user:password@tcp(localhost:3306)/dbname'']) \<and>
   GetDB lib_down ''primary_db'' reg_primary =
     (None,
      Some (ErrReconnect ''primary_db''
        (ErrInitialize ''primary_db''
           ''dial tcp 127.0.0.1:3306: connect: connection refused'')),
      GetMySqlConnection,
      [Call_DB 1, Call_Ping 101, Call_DB 1, Call_Close 101,
       Call_Open ''user:password@tcp(localhost:3306)/dbname''])"
proof -
  have reg: "connections reg_primary ''primary_db'' = Some 1"
      "configs reg_primary ''primary_db'' = Some cfg_primary"
    by (simp_all add: reg_primary_def)
  have stale: "db_DB lib_stale 1 = Inr 101"
      "sqlDB_Ping lib_stale 101 = Some ''sql: database is closed''"
    and stale_ok: "sqlDB_Close lib_stale 101 = None"
      "gorm_Open lib_stale (DataSourceName cfg_primary) = Inr 2"
      "db_DB lib_stale 2 = Inr 102"
      "sqlDB_Ping lib_stale 102 = None"
    by (simp_all add: lib_stale_def)
  have cf: "db_DB lib_close_fails 1 = Inr 101"
      "sqlDB_Ping lib_close_fails 101 = Some ''driver: bad connection''"
    and cf_close: "sqlDB_Close lib_close_fails 101 = Some ''close tcp 127.0.0.1:3306: i/o timeout''"
    by (simp_all add: lib_close_fails_def)
  have down: "db_DB lib_down 1 = Inr 101"
      "sqlDB_Ping lib_down 101 = Some ''driver: bad connection''"
    and down_close: "sqlDB_Close lib_down 101 = None"
    by (simp_all add: lib_down_def)
  have removed: "reg_primary\<lparr>connections := (connections reg_primary)(''primary_db'' := None),
        configs := (configs reg_primary)(''primary_db'' := None)\<rparr> = GetMySqlConnection"
    by (simp add: reg_primary_def GetMySqlConnection_def)
  have down_init:
    "InitDataSourceConnection lib_down ''primary_db'' cfg_primary GetMySqlConnection =
     (Some (ErrInitialize ''primary_db''
        ''dial tcp 127.0.0.1:3306: connect: connection refused''),
      GetMySqlConnection, [Call_Open ''user:password@tcp(localhost:3306)/dbname''])"
    by (simp add: InitDataSourceConnection_def lib_down_def GetMySqlConnection_def
          cfg_primary_def)
  have r: "reg_primary\<lparr>connections := (connections reg_primary)(''primary_db'' \<mapsto> 2)\<rparr> =
      \<lparr>connections = [''primary_db'' \<mapsto> 2], configs = [''primary_db'' \<mapsto> cfg_primary]\<rparr>"
    by (simp add: reg_primary_def)
  have c: "DataSourceName cfg_primary = ''user:password@tcp(localhost:3306)/dbname''"
      "MaxOpen cfg_primary = 10" "MaxIdle cfg_primary = 5"
      "Lifetime cfg_primary = 3600000000000" "IdleTime cfg_primary = 1800000000000"
    by (simp_all add: cfg_primary_def)
  from GetDB_self_heals [OF reg stale, of 2 102] stale_ok
  have 1: "GetDB lib_stale ''primary_db'' reg_primary =
     (Some 2, None,
      \<lparr>connections = [''primary_db'' \<mapsto> 2], configs = [''primary_db'' \<mapsto> cfg_primary]\<rparr>,
      [Call_DB 1, Call_Ping 101, Call_DB 1, Call_Close 101,
       Call_Open ''user:password@tcp(localhost:3306)/dbname'', Call_DB 2,
       Call_SetMaxOpenConns 102 10, Call_SetMaxIdleConns 102 5,
       Call_SetConnMaxLifetime 102 3600000000000,
       Call_SetConnMaxIdleTime 102 1800000000000, Call_Ping 102])"
    by (simp add: r c)
  from GetDB_self_heals [OF reg cf, where ce = "''close tcp 127.0.0.1:3306: i/o timeout''"]
    cf_close
  have 2: "GetDB lib_close_fails ''primary_db'' reg_primary =
     (None,
      Some (ErrRemove ''primary_db''
        (ErrClose ''primary_db'' ''close tcp 127.0.0.1:3306: i/o timeout'')),
      reg_primary, [Call_DB 1, Call_Ping 101, Call_DB 1, Call_Close 101])"
    by simp
  from GetDB_self_heals [OF reg down,
      where cause = "ErrInitialize ''primary_db''
          ''dial tcp 127.0.0.1:3306: connect: connection refused''"
        and ?f2.0 = GetMySqlConnection
        and cs = "[Call_Open ''user:password@tcp(localhost:3306)/dbname'']"]
    down_close down_init
  have 3: "GetDB lib_down ''primary_db'' reg_primary =
     (None,
      Some (ErrReconnect ''primary_db''
        (ErrInitialize ''primary_db''
           ''dial tcp 127.0.0.1:3306: connect: connection refused'')),
      GetMySqlConnection,
      [Call_DB 1, Call_Ping 101, Call_DB 1, Call_Close 101,
       Call_Open ''user:password@tcp(localhost:3306)/dbname''])"
    by (simp add: removed)
  from reg stale stale_ok cf cf_close down down_close down_init 1 2 3 show ?thesis by simp
qed

text \<open>
  Without the hypotheses on the reconnection the statement fails. \<open>primary_db\<close> is
  initialized while the server is up; then the server goes down. The ping of the stored
  pointer fails, a configuration is on record, the old pool is closed, the new open is
  refused, and \<open>GetDB\<close> returns \<open>nil\<close> with the wrapped error; the name is gone from
  the registry.
\<close>

theorem GetDB_self_heals_counterexample:
  "InitDataSourceConnection lib_up ''primary_db'' cfg_primary GetMySqlConnection =
     (None, reg_primary,
      [Call_Open ''user:password@tcp(localhost:3306)/dbname'', Call_DB 1,
       Call_SetMaxOpenConns 101 10, Call_SetMaxIdleConns 101 5,
       Call_SetConnMaxLifetime 101 3600000000000,
       Call_SetConnMaxIdleTime 101 1800000000000, Call_Ping 101]) \<and>
   connections reg_primary ''primary_db'' = Some 1 \<and>
   configs reg_primary ''primary_db'' = Some cfg_primary \<and>
   db_DB lib_down 1 = Inr 101 \<and>
   sqlDB_Ping lib_down 101 = Some ''driver: bad connection'' \<and>
   GetDB lib_down ''primary_db'' reg_primary =
     (None,
      Some (ErrReconnect ''primary_db''
        (ErrInitialize ''primary_db'' ''dial tcp 127.0.0.1:3306: connect: connection refused'')),
      GetMySqlConnection,
      [Call_DB 1, Call_Ping 101, Call_DB 1, Call_Close 101,
       Call_Open ''user:password@tcp(localhost:3306)/dbname''])"
  by (simp add: GetDB_def reconnect_def CloseConnection_def InitDataSourceConnection_def
        lib_up_def lib_down_def GetMySqlConnection_def reg_primary_def cfg_primary_def)

text \<open>
  Claim C2. When \<open>name\<close> is already a key of \<open>connections\<close>,
  \<open>InitDataSourceConnection\<close> returns no error for any configuration and any library
  behaviour, the set of keys afterwards is the one before, and the entries under \<open>name\<close>
  are exactly the one that was there.
\<close>

theorem Init_idempotent:
  assumes "connections f name = Some db"
  shows "fst (InitDataSourceConnection lib name config f) = None \<and>
         dom (connections (fst (snd (InitDataSourceConnection lib name config f)))) =
           dom (connections f) \<and>
         {(k, v). k = name \<and>
            connections (fst (snd (InitDataSourceConnection lib name config f))) k = Some v} =
           {(name, db)}"
  using assms by (auto simp: InitDataSourceConnection_def)

text \<open>A second initialization of \<open>primary_db\<close> in \<open>reg_primary\<close>.\<close>

theorem Init_idempotent_witness:
  "connections reg_primary ''primary_db'' = Some 1 \<and>
   fst (InitDataSourceConnection lib_up ''primary_db'' cfg_primary reg_primary) = None \<and>
   dom (connections (fst (snd (InitDataSourceConnection lib_up ''primary_db'' cfg_primary
      reg_primary)))) = {''primary_db''}"
proof -
  have h: "connections reg_primary ''primary_db'' = Some 1"
    by (simp add: reg_primary_def)
  have d: "dom (connections reg_primary) = {''primary_db''}"
    by (simp add: reg_primary_def)
  show ?thesis
    using h d Init_idempotent [OF h, of lib_up cfg_primary] by simp
qed

text \<open>
  Claim C3. For a name that is not registered, if the open fails, or the open succeeds and
  the pool cannot be obtained, or both succeed and the ping fails, then
  \<open>InitDataSourceConnection\<close> returns an error and the registry afterwards is the
  registry before: \<open>connections\<close> and \<open>configs\<close> are unchanged.
\<close>

theorem Init_atomic_on_failure:
  assumes "connections f name = None"
    and "(\<exists>e. gorm_Open lib (DataSourceName config) = Inl e) \<or>
         (\<exists>db e. gorm_Open lib (DataSourceName config) = Inr db \<and> db_DB lib db = Inl e) \<or>
         (\<exists>db s e. gorm_Open lib (DataSourceName config) = Inr db \<and> db_DB lib db = Inr s \<and>
            sqlDB_Ping lib s = Some e)"
  shows "fst (InitDataSourceConnection lib name config f) \<noteq> None \<and>
         fst (snd (InitDataSourceConnection lib name config f)) = f \<and>
         connections (fst (snd (InitDataSourceConnection lib name config f))) = connections f \<and>
         configs (fst (snd (InitDataSourceConnection lib name config f))) = configs f"
  using assms by (auto simp: InitDataSourceConnection_def)

text \<open>
  One library behaviour for each of the three failures, on the empty registry:
  \<open>lib_down\<close> refuses the open, \<open>lib_no_handle\<close> gives no pool and \<open>lib_no_ping\<close>
  fails the ping.
\<close>

theorem Init_atomic_on_failure_witness:
  "connections GetMySqlConnection ''primary_db'' = None \<and>
   gorm_Open lib_down (DataSourceName cfg_primary) =
     Inl ''dial tcp 127.0.0.1:3306: connect: connection refused'' \<and>
   fst (InitDataSourceConnection lib_down ''primary_db'' cfg_primary GetMySqlConnection) \<noteq> None \<and>
   fst (snd (InitDataSourceConnection lib_down ''primary_db'' cfg_primary GetMySqlConnection)) =
     GetMySqlConnection \<and>
   gorm_Open lib_no_handle (DataSourceName cfg_primary) = Inr 1 \<and>
   db_DB lib_no_handle 1 = Inl ''invalid db'' \<and>
   fst (InitDataSourceConnection lib_no_handle ''primary_db'' cfg_primary GetMySqlConnection) \<noteq> None \<and>
   fst (snd (InitDataSourceConnection lib_no_handle ''primary_db'' cfg_primary GetMySqlConnection)) =
     GetMySqlConnection \<and>
   gorm_Open lib_no_ping (DataSourceName cfg_primary) = Inr 1 \<and>
   db_DB lib_no_ping 1 = Inr 101 \<and>
   sqlDB_Ping lib_no_ping 101 = Some ''driver: bad connection'' \<and>
   fst (InitDataSourceConnection lib_no_ping ''primary_db'' cfg_primary GetMySqlConnection) \<noteq> None \<and>
   fst (snd (InitDataSourceConnection lib_no_ping ''primary_db'' cfg_primary GetMySqlConnection)) =
     GetMySqlConnection"
proof -
  have absent: "connections GetMySqlConnection ''primary_db'' = None"
    by (simp add: GetMySqlConnection_def)
  have op: "gorm_Open lib_down (DataSourceName cfg_primary) =
     Inl ''dial tcp 127.0.0.1:3306: connect: connection refused''"
    by (simp add: lib_down_def)
  have nh: "gorm_Open lib_no_handle (DataSourceName cfg_primary) = Inr 1"
      "db_DB lib_no_handle 1 = Inl ''invalid db''"
    by (simp_all add: lib_no_handle_def)
  have np: "gorm_Open lib_no_ping (DataSourceName cfg_primary) = Inr 1"
      "db_DB lib_no_ping 1 = Inr 101"
      "sqlDB_Ping lib_no_ping 101 = Some ''driver: bad connection''"
    by (simp_all add: lib_no_ping_def)
  have 1: "(\<exists>e. gorm_Open lib_down (DataSourceName cfg_primary) = Inl e) \<or>
         (\<exists>db e. gorm_Open lib_down (DataSourceName cfg_primary) = Inr db \<and> db_DB lib_down db = Inl e) \<or>
         (\<exists>db s e. gorm_Open lib_down (DataSourceName cfg_primary) = Inr db \<and> db_DB lib_down db = Inr s \<and>
            sqlDB_Ping lib_down s = Some e)"
    using op by blast
  have 2: "(\<exists>e. gorm_Open lib_no_handle (DataSourceName cfg_primary) = Inl e) \<or>
         (\<exists>db e. gorm_Open lib_no_handle (DataSourceName cfg_primary) = Inr db \<and> db_DB lib_no_handle db = Inl e) \<or>
         (\<exists>db s e. gorm_Open lib_no_handle (DataSourceName cfg_primary) = Inr db \<and> db_DB lib_no_handle db = Inr s \<and>
            sqlDB_Ping lib_no_handle s = Some e)"
    using nh by blast
  have 3: "(\<exists>e. gorm_Open lib_no_ping (DataSourceName cfg_primary) = Inl e) \<or>
         (\<exists>db e. gorm_Open lib_no_ping (DataSourceName cfg_primary) = Inr db \<and> db_DB lib_no_ping db = Inl e) \<or>
         (\<exists>db s e. gorm_Open lib_no_ping (DataSourceName cfg_primary) = Inr db \<and> db_DB lib_no_ping db = Inr s \<and>
            sqlDB_Ping lib_no_ping s = Some e)"
    using np by blast
  show ?thesis
    using absent op nh np
      Init_atomic_on_failure [OF absent 1]
      Init_atomic_on_failure [OF absent 2]
      Init_atomic_on_failure [OF absent 3]
    by simp
qed

text \<open>
  Claim C4. For a name that is not a key of \<open>connections\<close>, \<open>GetDB\<close> returns \<open>nil\<close>
  and the does-not-exist error, \<open>CloseConnection\<close> returns the does-not-exist error, and
  both leave the registry as it was, without a call into the library.
\<close>

theorem not_found_contract:
  assumes "connections f name = None"
  shows "GetDB lib name f = (None, Some (ErrNotExist name), f, []) \<and>
         CloseConnection lib name f = (Some (ErrNotExist name), f, [])"
  using assms by (simp add: GetDB_def CloseConnection_def)

text \<open>\<open>replica_db\<close> is not registered in \<open>reg_primary\<close>.\<close>

theorem not_found_contract_witness:
  "connections reg_primary ''replica_db'' = None \<and>
   GetDB lib_up ''replica_db'' reg_primary =
     (None, Some (ErrNotExist ''replica_db''), reg_primary, []) \<and>
   CloseConnection lib_up ''replica_db'' reg_primary =
     (Some (ErrNotExist ''replica_db''), reg_primary, [])"
proof -
  have absent: "connections reg_primary ''replica_db'' = None"
    by (simp add: reg_primary_def)
  show ?thesis
    using absent not_found_contract [OF absent, of lib_up] by simp
qed

text \<open>
  Claim C5. A name is a key of \<open>connections\<close> and has no entry in \<open>configs\<close>, and its
  health check fails: the pool cannot be obtained, or its ping fails. Then \<open>GetDB\<close>
  returns \<open>nil\<close> and the no-configuration error, the registry is unchanged, and the only
  library calls are those of the health check: nothing is closed and nothing is opened.
\<close>

theorem GetDB_no_config:
  assumes "connections f name = Some db" and "configs f name = None"
    and "(\<exists>e. db_DB lib db = Inl e) \<or> (\<exists>s e. db_DB lib db = Inr s \<and> sqlDB_Ping lib s = Some e)"
  shows "GetDB lib name f =
           (None, Some (ErrNoConfig name), f,
            case db_DB lib db of Inl e \<Rightarrow> [Call_DB db] | Inr s \<Rightarrow> [Call_DB db, Call_Ping s])"
  using assms by (auto simp: GetDB_def)

text \<open>
  \<open>reg_no_config\<close> has a connection without a configuration; the health check fails
  by its ping under \<open>lib_down\<close> and by the missing pool under \<open>lib_no_handle\<close>.
\<close>

theorem GetDB_no_config_witness:
  "connections reg_no_config ''primary_db'' = Some 1 \<and>
   configs reg_no_config ''primary_db'' = None \<and>
   db_DB lib_down 1 = Inr 101 \<and>
   sqlDB_Ping lib_down 101 = Some ''driver: bad connection'' \<and>
   GetDB lib_down ''primary_db'' reg_no_config =
     (None, Some (ErrNoConfig ''primary_db''), reg_no_config, [Call_DB 1, Call_Ping 101]) \<and>
   db_DB lib_no_handle 1 = Inl ''invalid db'' \<and>
   GetDB lib_no_handle ''primary_db'' reg_no_config =
     (None, Some (ErrNoConfig ''primary_db''), reg_no_config, [Call_DB 1])"
proof -
  have present: "connections reg_no_config ''primary_db'' = Some 1"
    and no_cfg: "configs reg_no_config ''primary_db'' = None"
    by (simp_all add: reg_no_config_def)
  have down: "db_DB lib_down 1 = Inr 101"
      "sqlDB_Ping lib_down 101 = Some ''driver: bad connection''"
    by (simp_all add: lib_down_def)
  have nh: "db_DB lib_no_handle 1 = Inl ''invalid db''"
    by (simp add: lib_no_handle_def)
  have 1: "(\<exists>e. db_DB lib_down 1 = Inl e) \<or>
           (\<exists>s e. db_DB lib_down 1 = Inr s \<and> sqlDB_Ping lib_down s = Some e)"
    using down by blast
  have 2: "(\<exists>e. db_DB lib_no_handle 1 = Inl e) \<or>
           (\<exists>s e. db_DB lib_no_handle 1 = Inr s \<and> sqlDB_Ping lib_no_handle s = Some e)"
    using nh by blast
  show ?thesis
    using present no_cfg down nh
      GetDB_no_config [OF present no_cfg 1] GetDB_no_config [OF present no_cfg 2]
    by simp
qed

text \<open>
  Claim C6, as amended. When \<open>reconnect\<close> returns an error it returns \<open>nil\<close> with it,
  and one of two things has happened. Either \<open>CloseConnection\<close> failed: the error wraps
  its cause as a removal failure and the registry is unchanged. Or \<open>CloseConnection\<close>
  succeeded and \<open>InitDataSourceConnection\<close> failed: the error wraps its cause as a
  reconnection failure and the registry is the one before without \<open>name\<close> in either
  map. In both cases a \<open>GetDB\<close> whose health check fails on a name with that
  configuration returns the same \<open>nil\<close>, error and registry.
\<close>

theorem reconnect_failure:
  assumes "reconnect lib name config f = (db', Some err, f', cs)"
  shows "db' = None \<and>
         ((\<exists>cause. fst (CloseConnection lib name f) = Some cause \<and>
             err = ErrRemove name cause \<and> f' = f) \<or>
          (\<exists>cause. fst (CloseConnection lib name f) = None \<and>
             err = ErrReconnect name cause \<and>
             f' = f\<lparr>connections := (connections f)(name := None),
                    configs := (configs f)(name := None)\<rparr> \<and>
             connections f' name = None \<and> configs f' name = None)) \<and>
         (\<forall>db. connections f name = Some db \<and> configs f name = Some config \<and>
             (case db_DB lib db of Inl e \<Rightarrow> True | Inr s \<Rightarrow> sqlDB_Ping lib s \<noteq> None) \<longrightarrow>
             fst (GetDB lib name f) = None \<and> fst (snd (GetDB lib name f)) = Some err \<and>
             fst (snd (snd (GetDB lib name f))) = f')"
proof -
  have r: "db' = None"
    using assms by (auto simp: reconnect_def split: prod.splits option.splits)
  have c: "(\<exists>cause. fst (CloseConnection lib name f) = Some cause \<and>
             err = ErrRemove name cause \<and> f' = f) \<or>
          (\<exists>cause. fst (CloseConnection lib name f) = None \<and>
             err = ErrReconnect name cause \<and>
             f' = f\<lparr>connections := (connections f)(name := None),
                    configs := (configs f)(name := None)\<rparr> \<and>
             connections f' name = None \<and> configs f' name = None)"
  proof (cases "fst (CloseConnection lib name f)")
    case (Some cause)
    with Close_registry [of lib name f] have "fst (snd (CloseConnection lib name f)) = f"
      by simp
    with Some assms show ?thesis
      by (auto simp: reconnect_def split: prod.splits option.splits)
  next
    case None
    let ?f1 = "f\<lparr>connections := (connections f)(name := None),
                 configs := (configs f)(name := None)\<rparr>"
    from None Close_registry [of lib name f]
    have f1: "fst (snd (CloseConnection lib name f)) = ?f1"
      by simp
    obtain cs1 where cl: "CloseConnection lib name f = (None, ?f1, cs1)"
      using None f1 by (cases "CloseConnection lib name f") auto
    from assms cl obtain cause where
      e: "fst (InitDataSourceConnection lib name config ?f1) = Some cause"
      and er: "err = ErrReconnect name cause"
      and f': "f' = fst (snd (InitDataSourceConnection lib name config ?f1))"
      by (auto simp: reconnect_def split: prod.splits option.splits)
    from e have "fst (snd (InitDataSourceConnection lib name config ?f1)) = ?f1"
      by (intro Init_error_registry) simp
    with f' have "f' = ?f1" by simp
    with None er show ?thesis by simp
  qed
  have g: "fst (GetDB lib name f) = None \<and> fst (snd (GetDB lib name f)) = Some err \<and>
           fst (snd (snd (GetDB lib name f))) = f'"
    if "connections f name = Some db" and "configs f name = Some config"
      and "case db_DB lib db of Inl e \<Rightarrow> True | Inr s \<Rightarrow> sqlDB_Ping lib s \<noteq> None" for db
    using that assms r by (auto simp: GetDB_def split: sum.splits)
  from r c g show ?thesis by blast
qed

text \<open>
  With the server down (\<open>lib_down\<close>) the close succeeds and the open is refused:
  the name is removed from both maps and \<open>GetDB\<close> returns the reconnection error.
\<close>

theorem reconnect_failure_witness:
  "reconnect lib_down ''primary_db'' cfg_primary reg_primary =
     (None,
      Some (ErrReconnect ''primary_db''
        (ErrInitialize ''primary_db'' ''dial tcp 127.0.0.1:3306: connect: connection refused'')),
      GetMySqlConnection,
      [Call_DB 1, Call_Close 101, Call_Open ''user:password@tcp(localhost:3306)/dbname'']) \<and>
   fst (CloseConnection lib_down ''primary_db'' reg_primary) = None \<and>
   connections GetMySqlConnection ''primary_db'' = None \<and>
   configs GetMySqlConnection ''primary_db'' = None \<and>
   fst (GetDB lib_down ''primary_db'' reg_primary) = None \<and>
   fst (snd (GetDB lib_down ''primary_db'' reg_primary)) =
     Some (ErrReconnect ''primary_db''
        (ErrInitialize ''primary_db'' ''dial tcp 127.0.0.1:3306: connect: connection refused'')) \<and>
   fst (snd (snd (GetDB lib_down ''primary_db'' reg_primary))) = GetMySqlConnection"
proof -
  have h: "reconnect lib_down ''primary_db'' cfg_primary reg_primary =
     (None,
      Some (ErrReconnect ''primary_db''
        (ErrInitialize ''primary_db'' ''dial tcp 127.0.0.1:3306: connect: connection refused'')),
      GetMySqlConnection,
      [Call_DB 1, Call_Close 101, Call_Open ''user:password@tcp(localhost:3306)/dbname''])"
    by (simp add: reconnect_def CloseConnection_def InitDataSourceConnection_def
          lib_down_def GetMySqlConnection_def reg_primary_def cfg_primary_def)
  have cl: "fst (CloseConnection lib_down ''primary_db'' reg_primary) = None"
    by (simp add: CloseConnection_def lib_down_def reg_primary_def)
  have e: "connections GetMySqlConnection ''primary_db'' = None"
      "configs GetMySqlConnection ''primary_db'' = None"
    by (simp_all add: GetMySqlConnection_def)
  have p: "connections reg_primary ''primary_db'' = Some 1 \<and>
      configs reg_primary ''primary_db'' = Some cfg_primary \<and>
      (case db_DB lib_down 1 of Inl e \<Rightarrow> True | Inr s \<Rightarrow> sqlDB_Ping lib_down s \<noteq> None)"
    by (simp add: reg_primary_def lib_down_def)
  from reconnect_failure [OF h] p
  have "fst (GetDB lib_down ''primary_db'' reg_primary) = None \<and>
   fst (snd (GetDB lib_down ''primary_db'' reg_primary)) =
     Some (ErrReconnect ''primary_db''
        (ErrInitialize ''primary_db'' ''dial tcp 127.0.0.1:3306: connect: connection refused'')) \<and>
   fst (snd (snd (GetDB lib_down ''primary_db'' reg_primary))) = GetMySqlConnection"
    by blast
  with h cl e show ?thesis by simp
qed

text \<open>
  A failure of the close step does not remove the name. Under \<open>lib_close_fails\<close> the
  pool of \<open>primary_db\<close> refuses to close: \<open>CloseConnection\<close> returns before its
  deletes, \<open>reconnect\<close> and \<open>GetDB\<close> return the removal error, and the registry is
  still \<open>reg_primary\<close>, with the name in both maps.
\<close>

theorem reconnect_failure_counterexample:
  "connections reg_primary ''primary_db'' = Some 1 \<and>
   configs reg_primary ''primary_db'' = Some cfg_primary \<and>
   CloseConnection lib_close_fails ''primary_db'' reg_primary =
     (Some (ErrClose ''primary_db'' ''close tcp 127.0.0.1:3306: i/o timeout''), reg_primary,
      [Call_DB 1, Call_Close 101]) \<and>
   reconnect lib_close_fails ''primary_db'' cfg_primary reg_primary =
     (None,
      Some (ErrRemove ''primary_db''
        (ErrClose ''primary_db'' ''close tcp 127.0.0.1:3306: i/o timeout'')),
      reg_primary, [Call_DB 1, Call_Close 101]) \<and>
   GetDB lib_close_fails ''primary_db'' reg_primary =
     (None,
      Some (ErrRemove ''primary_db''
        (ErrClose ''primary_db'' ''close tcp 127.0.0.1:3306: i/o timeout'')),
      reg_primary, [Call_DB 1, Call_Ping 101, Call_DB 1, Call_Close 101])"
  by (simp add: GetDB_def reconnect_def CloseConnection_def lib_close_fails_def reg_primary_def)

text \<open>
  Claim C7. Whatever the registry holds and however the library answers during the loop,
  after \<open>CloseAllConnections\<close> both maps are empty; then \<open>GetDB\<close> returns \<open>nil\<close>
  and the does-not-exist error for every name, and \<open>PrintAllExistingDb\<close> lists no name.
\<close>

theorem CloseAll_drains:
  "connections (fst (CloseAllConnections lib f)) = Map.empty \<and>
   configs (fst (CloseAllConnections lib f)) = Map.empty \<and>
   GetDB lib' name (fst (CloseAllConnections lib f)) =
     (None, Some (ErrNotExist name), fst (CloseAllConnections lib f), []) \<and>
   PrintAllExistingDb lib' (fst (CloseAllConnections lib f)) = []"
  by (simp add: CloseAllConnections_def GetDB_def PrintAllExistingDb_def existing_names_empty)

text \<open>
  Draining \<open>reg_primary\<close> while every close fails: the pool of \<open>primary_db\<close> is asked
  to close, the name was listed before and is unknown afterwards.
\<close>

theorem CloseAll_drains_witness:
  "connections (fst (CloseAllConnections lib_close_fails reg_primary)) = Map.empty \<and>
   configs (fst (CloseAllConnections lib_close_fails reg_primary)) = Map.empty \<and>
   snd (CloseAllConnections lib_close_fails reg_primary) = [Call_DB 1, Call_Close 101] \<and>
   GetDB lib_up ''primary_db'' (fst (CloseAllConnections lib_close_fails reg_primary)) =
     (None, Some (ErrNotExist ''primary_db''),
      fst (CloseAllConnections lib_close_fails reg_primary), []) \<and>
   PrintAllExistingDb lib_up (fst (CloseAllConnections lib_close_fails reg_primary)) = [] \<and>
   PrintAllExistingDb lib_up reg_primary = [''primary_db'']"
proof -
  have calls: "snd (CloseAllConnections lib_close_fails reg_primary) = [Call_DB 1, Call_Close 101]"
    by (simp add: CloseAllConnections_def lib_close_fails_def reg_primary_def)
  have before: "PrintAllExistingDb lib_up reg_primary = [''primary_db'']"
    by (simp add: PrintAllExistingDb_def lib_up_def reg_primary_def)
  show ?thesis
    using calls before CloseAll_drains [of lib_close_fails reg_primary lib_up "''primary_db''"]
    by simp
qed

text \<open>
  Claim C8, as amended. If \<open>name\<close> is not a key of \<open>connections\<close> and
  \<open>InitDataSourceConnection\<close> with \<open>cfg\<close> returns no error, then \<open>GetDbConfig\<close>
  afterwards returns \<open>cfg\<close>. If \<open>name\<close> is already a key, the call returns no error and
  \<open>GetDbConfig\<close> returns what it returned before. For a name without an entry in
  \<open>configs\<close>, \<open>GetDbConfig\<close> returns the zero \<open>DBConfig\<close>; that is the case after any
  sequence of calls on the initial registry none of which initializes the name.
\<close>

theorem GetDbConfig_round_trip:
  "(connections f name = None \<and> fst (InitDataSourceConnection lib name cfg f) = None \<longrightarrow>
      GetDbConfig name (fst (snd (InitDataSourceConnection lib name cfg f))) = cfg) \<and>
   (connections f name \<noteq> None \<longrightarrow>
      fst (InitDataSourceConnection lib name cfg f) = None \<and>
      GetDbConfig name (fst (snd (InitDataSourceConnection lib name cfg f))) =
        GetDbConfig name f) \<and>
   (configs f name' = None \<longrightarrow> GetDbConfig name' f = DBConfig_zero) \<and>
   ((\<forall>s\<in>set calls. \<not> initializes name' (snd s)) \<longrightarrow>
      GetDbConfig name' (run calls GetMySqlConnection) = DBConfig_zero)"
proof -
  have a: "GetDbConfig name (fst (snd (InitDataSourceConnection lib name cfg f))) = cfg"
    if "connections f name = None" and "fst (InitDataSourceConnection lib name cfg f) = None"
    using that Init_registry [of lib name cfg f]
    by (auto simp: GetDbConfig_def InitDataSourceConnection_def Let_def
          split: option.splits sum.splits)
  have b: "fst (InitDataSourceConnection lib name cfg f) = None \<and>
      GetDbConfig name (fst (snd (InitDataSourceConnection lib name cfg f))) = GetDbConfig name f"
    if "connections f name \<noteq> None"
    using that by (auto simp: Init_registered)
  have c: "GetDbConfig n g = DBConfig_zero" if "configs g n = None" for n g
    using that by (simp add: GetDbConfig_def)
  have "configs GetMySqlConnection name' = None"
    by (simp add: GetMySqlConnection_def)
  then have d: "GetDbConfig name' (run calls GetMySqlConnection) = DBConfig_zero"
    if "\<forall>s\<in>set calls. \<not> initializes name' (snd s)"
    using that by (intro c run_configs_None)
  from a b c d show ?thesis by blast
qed

text \<open>
  \<open>primary_db\<close> is initialized on the initial registry and read back; \<open>replica_db\<close>
  is looked up and closed but never initialized.
\<close>

theorem GetDbConfig_round_trip_witness:
  "connections GetMySqlConnection ''primary_db'' = None \<and>
   fst (InitDataSourceConnection lib_up ''primary_db'' cfg_primary GetMySqlConnection) = None \<and>
   GetDbConfig ''primary_db''
     (fst (snd (InitDataSourceConnection lib_up ''primary_db'' cfg_primary GetMySqlConnection))) =
     cfg_primary \<and>
   GetDbConfig ''replica_db''
     (run [(lib_up, Op_Init ''primary_db'' cfg_primary), (lib_stale, Op_GetDB ''primary_db''),
           (lib_up, Op_GetDB ''replica_db''), (lib_up, Op_Close ''replica_db'')]
        GetMySqlConnection) = DBConfig_zero"
proof -
  have absent: "connections GetMySqlConnection ''primary_db'' = None"
    by (simp add: GetMySqlConnection_def)
  have ok: "fst (InitDataSourceConnection lib_up ''primary_db'' cfg_primary GetMySqlConnection) = None"
    by (simp add: InitDataSourceConnection_def GetMySqlConnection_def lib_up_def)
  have never: "\<forall>s\<in>set [(lib_up, Op_Init ''primary_db'' cfg_primary),
       (lib_stale, Op_GetDB ''primary_db''),
       (lib_up, Op_GetDB ''replica_db''), (lib_up, Op_Close ''replica_db'')].
       \<not> initializes ''replica_db'' (snd s)"
    by simp
  show ?thesis
    using absent ok never
      GetDbConfig_round_trip [of GetMySqlConnection "''primary_db''" lib_up cfg_primary
        "''replica_db''"
        "[(lib_up, Op_Init ''primary_db'' cfg_primary), (lib_stale, Op_GetDB ''primary_db''),
          (lib_up, Op_GetDB ''replica_db''), (lib_up, Op_Close ''replica_db'')]"]
    by simp
qed

text \<open>
  The round trip fails for a name that is already registered: a second initialization of
  \<open>primary_db\<close>, with \<open>cfg_test\<close>, returns no error, and \<open>GetDbConfig\<close> still returns
  \<open>cfg_primary\<close>.
\<close>

theorem GetDbConfig_round_trip_counterexample:
  "InitDataSourceConnection lib_up ''primary_db'' cfg_primary GetMySqlConnection =
     (None, reg_primary,
      [Call_Open ''user:password@tcp(localhost:3306)/dbname'', Call_DB 1,
       Call_SetMaxOpenConns 101 10, Call_SetMaxIdleConns 101 5,
       Call_SetConnMaxLifetime 101 3600000000000,
       Call_SetConnMaxIdleTime 101 1800000000000, Call_Ping 101]) \<and>
   InitDataSourceConnection lib_up ''primary_db'' cfg_test reg_primary = (None, reg_primary, []) \<and>
   GetDbConfig ''primary_db'' reg_primary = cfg_primary \<and>
   cfg_primary \<noteq> cfg_test"
  by (simp add: InitDataSourceConnection_def GetDbConfig_def DBConfig_zero_def
        lib_up_def GetMySqlConnection_def reg_primary_def cfg_primary_def cfg_test_def)

text \<open>
  Claim C9. Every key of \<open>connections\<close> is a key of \<open>configs\<close> in the initial
  registry; each of \<open>InitDataSourceConnection\<close>, \<open>GetDB\<close>, \<open>reconnect\<close>,
  \<open>CloseConnection\<close> and \<open>CloseAllConnections\<close> leaves a registry with that property
  when it starts from one, whatever the library answers; hence the registry has it after
  any sequence of calls on the initial registry.
\<close>

theorem registry_invariant:
  "config_for_each_connection GetMySqlConnection \<and>
   (config_for_each_connection f \<longrightarrow>
      config_for_each_connection (fst (snd (InitDataSourceConnection lib name config f))) \<and>
      config_for_each_connection (fst (snd (snd (GetDB lib name f)))) \<and>
      config_for_each_connection (fst (snd (snd (reconnect lib name config f)))) \<and>
      config_for_each_connection (fst (snd (CloseConnection lib name f))) \<and>
      config_for_each_connection (fst (CloseAllConnections lib f))) \<and>
   config_for_each_connection (run calls GetMySqlConnection)"
proof -
  have start: "config_for_each_connection GetMySqlConnection"
    by (simp add: config_for_each_connection_def GetMySqlConnection_def)
  from start have "config_for_each_connection (run calls GetMySqlConnection)"
    by (rule inv_run)
  with start show ?thesis
    by (simp add: inv_Init inv_GetDB inv_reconnect inv_Close inv_CloseAll)
qed

text \<open>
  The invariant holds of \<open>reg_primary\<close> and after each method on it, and after a run
  that initializes, heals and then loses \<open>primary_db\<close>; it is a real restriction, since
  \<open>reg_no_config\<close> does not have it.
\<close>

theorem registry_invariant_witness:
  "config_for_each_connection reg_primary \<and>
   config_for_each_connection
     (fst (snd (InitDataSourceConnection lib_up ''primary_db'' cfg_test reg_primary))) \<and>
   config_for_each_connection (fst (snd (snd (GetDB lib_stale ''primary_db'' reg_primary)))) \<and>
   config_for_each_connection
     (fst (snd (snd (reconnect lib_stale ''primary_db'' cfg_test reg_primary)))) \<and>
   config_for_each_connection (fst (snd (CloseConnection lib_stale ''primary_db'' reg_primary))) \<and>
   config_for_each_connection (fst (CloseAllConnections lib_stale reg_primary)) \<and>
   config_for_each_connection
     (run [(lib_up, Op_Init ''primary_db'' cfg_primary), (lib_stale, Op_GetDB ''primary_db''),
           (lib_down, Op_GetDB ''primary_db'')] GetMySqlConnection) \<and>
   \<not> config_for_each_connection reg_no_config"
proof -
  have holds: "config_for_each_connection reg_primary"
    by (simp add: config_for_each_connection_def reg_primary_def)
  have fails: "\<not> config_for_each_connection reg_no_config"
    by (simp add: config_for_each_connection_def reg_no_config_def)
  show ?thesis
    using holds fails
      registry_invariant [of reg_primary lib_stale "''primary_db''" cfg_test
        "[(lib_up, Op_Init ''primary_db'' cfg_primary), (lib_stale, Op_GetDB ''primary_db''),
          (lib_down, Op_GetDB ''primary_db'')]"]
      registry_invariant [of reg_primary lib_up "''primary_db''" cfg_test "[]"]
    by simp
qed

text \<open>
  Claim C10. When \<open>name\<close> is already a key of \<open>connections\<close>,
  \<open>InitDataSourceConnection\<close> with any configuration returns the registry it was given,
  so the stored pointer, the stored configuration and every other entry of both maps are
  unchanged, and it makes no call into the library.
\<close>

theorem Init_duplicate_frame:
  assumes "connections f name = Some db"
  shows "InitDataSourceConnection lib name cfg2 f = (None, f, []) \<and>
         connections (fst (snd (InitDataSourceConnection lib name cfg2 f))) = connections f \<and>
         configs (fst (snd (InitDataSourceConnection lib name cfg2 f))) = configs f"
  using assms by (simp add: InitDataSourceConnection_def)

text \<open>
  Initializing \<open>primary_db\<close> again with \<open>cfg_test\<close>, which differs from the stored
  \<open>cfg_primary\<close>.
\<close>

theorem Init_duplicate_frame_witness:
  "connections reg_primary ''primary_db'' = Some 1 \<and>
   cfg_test \<noteq> cfg_primary \<and>
   InitDataSourceConnection lib_up ''primary_db'' cfg_test reg_primary = (None, reg_primary, []) \<and>
   connections reg_primary ''primary_db'' = Some 1 \<and>
   configs reg_primary ''primary_db'' = Some cfg_primary"
proof -
  have present: "connections reg_primary ''primary_db'' = Some 1"
    and cfg: "configs reg_primary ''primary_db'' = Some cfg_primary"
    by (simp_all add: reg_primary_def)
  have differ: "cfg_test \<noteq> cfg_primary"
    by (simp add: cfg_test_def cfg_primary_def)
  show ?thesis
    using present cfg differ Init_duplicate_frame [OF present, of lib_up cfg_test] by simp
qed

end
